theory Spec2Isabelle
  imports Main "HOL-Library.Sublist"
begin

text \<open>
  A shallow embedding of the two pages of the job board: the listing page
  (\<open>src/JobsPage.jsx\<close>: the \<open>filteredJobs\<close> and \<open>locations\<close> memos) and the assist page
  (\<open>ApplyWithAI\<close>: the redirect effect and the four asynchronous actions), followed by
  the properties the specification states about them.
\<close>

section \<open>JavaScript strings\<close>

text \<open>
  A JavaScript string is a sequence of code units. The model covers the strings whose
  code units lie in 0..255 (Basic Latin and Latin-1 Supplement), one \<^typ>\<open>char\<close> per code
  unit. On that range the built-ins used by the pages act as follows.
\<close>

definition lower_unit :: "char \<Rightarrow> char" where
  \<comment> \<open>A..Z and the Latin-1 capitals U+00C0..U+00DE (U+00D7, the multiplication sign,
      has no case) move up by 32; every other code unit is its own lower case.\<close>
  "lower_unit c =
     (let n = (of_char c :: nat)
      in if (65 \<le> n \<and> n \<le> 90) \<or> (192 \<le> n \<and> n \<le> 222 \<and> n \<noteq> 215)
         then char_of (n + 32) else c)"

definition toLowerCase :: "string \<Rightarrow> string" where
  \<comment> \<open>String.prototype.toLowerCase\<close>
  "toLowerCase s = map lower_unit s"

definition is_white :: "char \<Rightarrow> bool" where
  \<comment> \<open>WhiteSpace and LineTerminator code units below 256: TAB, LF, VT, FF, CR, SP, NBSP\<close>
  "is_white c = ((of_char c :: nat) \<in> {9, 10, 11, 12, 13, 32, 160})"

definition trim :: "string \<Rightarrow> string" where
  \<comment> \<open>String.prototype.trim\<close>
  "trim s = rev (dropWhile is_white (rev (dropWhile is_white s)))"

fun startsWith :: "string \<Rightarrow> string \<Rightarrow> bool" where
  "startsWith s [] = True"
| "startsWith [] (q # qs) = False"
| "startsWith (c # cs) (q # qs) = (c = q \<and> startsWith cs qs)"

fun includes_str :: "string \<Rightarrow> string \<Rightarrow> bool" where
  \<comment> \<open>String.prototype.includes: the search string occurs at some position\<close>
  "includes_str [] q = startsWith [] q"
| "includes_str (c # cs) q = (startsWith (c # cs) q \<or> includes_str cs q)"

section \<open>Job records\<close>

text \<open>
  A job of the static dataset. A text field is missing, \<open>null\<close> or a string. The nested
  \<open>discovery_input\<close> is \<open>None\<close> when it is missing or \<open>null\<close>: the pages read it only
  through \<open>?.\<close>, which treats the two alike. Only the fields the pages read are kept.
\<close>

datatype text_field = Missing | IsNull | Text string

record discovery_input =
  location :: text_field

record job =
  job_title :: text_field
  company_name :: text_field
  description :: text_field
  apply_link :: text_field
  discovery_input :: "discovery_input option"

definition job_location :: "job \<Rightarrow> text_field" where
  \<comment> \<open>\<open>j?.discovery_input?.location\<close>\<close>
  "job_location j = (case discovery_input j of None \<Rightarrow> Missing | Some d \<Rightarrow> location d)"

fun or_empty :: "text_field \<Rightarrow> string" where
  \<comment> \<open>\<open>v || ""\<close>: \<open>undefined\<close>, \<open>null\<close> and the empty string are all falsy\<close>
  "or_empty Missing = []"
| "or_empty IsNull = []"
| "or_empty (Text s) = s"

section \<open>The listing page: filtering\<close>

definition matchJob :: "string \<Rightarrow> string \<Rightarrow> job \<Rightarrow> bool" where
  \<comment> \<open>the callback of \<open>jobs.filter\<close>; \<open>query\<close> is already trimmed and lowercased\<close>
  "matchJob query loc j =
     (let title = toLowerCase (or_empty (job_title j));
          company = toLowerCase (or_empty (company_name j));
          location = toLowerCase (or_empty (job_location j));
          matchQuery = (query = [] \<or> includes_str title query \<or> includes_str company query
                        \<or> includes_str location query);
          matchLoc = (loc = ''All'' \<or> location = toLowerCase loc)
      in matchQuery \<and> matchLoc)"

definition filteredJobs :: "job list \<Rightarrow> string \<Rightarrow> string \<Rightarrow> job list" where
  "filteredJobs jobs q loc =
     (let query = toLowerCase (trim q) in filter (matchJob query loc) jobs)"

section \<open>The listing page: the location selector\<close>

fun filter_Boolean :: "text_field list \<Rightarrow> string list" where
  \<comment> \<open>\<open>.filter(Boolean)\<close>: drops \<open>undefined\<close>, \<open>null\<close> and the empty string\<close>
  "filter_Boolean [] = []"
| "filter_Boolean (Missing # vs) = filter_Boolean vs"
| "filter_Boolean (IsNull # vs) = filter_Boolean vs"
| "filter_Boolean (Text s # vs) = (if s = [] then filter_Boolean vs else s # filter_Boolean vs)"

definition Set_add :: "'a list \<Rightarrow> 'a \<Rightarrow> 'a list" where
  \<comment> \<open>\<open>Set.prototype.add\<close>: a new value goes to the end of the insertion order\<close>
  "Set_add acc x = (if x \<in> set acc then acc else acc @ [x])"

definition new_Set :: "'a list \<Rightarrow> 'a list" where
  \<comment> \<open>\<open>new Set(iterable)\<close>, kept as the list \<open>Array.from\<close> reads back\<close>
  "new_Set xs = foldl Set_add [] xs"

fun sort_insert :: "('a \<Rightarrow> 'a \<Rightarrow> int) \<Rightarrow> 'a \<Rightarrow> 'a list \<Rightarrow> 'a list" where
  "sort_insert cmp x [] = [x]"
| "sort_insert cmp x (y # ys) =
     (if cmp x y < 0 then x # y # ys else y # sort_insert cmp x ys)"

definition Array_sort :: "('a \<Rightarrow> 'a \<Rightarrow> int) \<Rightarrow> 'a list \<Rightarrow> 'a list" where
  \<comment> \<open>\<open>Array.prototype.sort(comparefn)\<close>: a stable sort; each element is placed
      after the earlier elements that do not compare greater\<close>
  "Array_sort cmp xs = foldl (\<lambda>acc x. sort_insert cmp x acc) [] xs"

definition locations :: "(string \<Rightarrow> string \<Rightarrow> int) \<Rightarrow> job list \<Rightarrow> string list" where
  \<comment> \<open>\<open>localeCompare\<close> is the host's collation, taken as a parameter\<close>
  "locations localeCompare jobs =
     (let s = new_Set (filter_Boolean (map job_location jobs))
      in ''All'' # Array_sort localeCompare s)"

fun compare_units :: "string \<Rightarrow> string \<Rightarrow> int" where
  \<comment> \<open>comparison by code units, one collation a host may provide\<close>
  "compare_units [] [] = 0"
| "compare_units [] (y # ys) = - 1"
| "compare_units (x # xs) [] = 1"
| "compare_units (x # xs) (y # ys) =
     (if (of_char x :: nat) < of_char y then - 1
      else if (of_char y :: nat) < of_char x then 1
      else compare_units xs ys)"

definition consistent_comparator :: "('a \<Rightarrow> 'a \<Rightarrow> int) \<Rightarrow> bool" where
  \<comment> \<open>what ECMAScript asks of a comparator for the result of \<open>sort\<close> to be defined\<close>
  "consistent_comparator cmp =
     ((\<forall>a b. (cmp a b < 0) = (0 < cmp b a)) \<and>
      (\<forall>a b c. cmp a b \<le> 0 \<and> cmp b c \<le> 0 \<longrightarrow> cmp a c \<le> 0))"

definition example_nurse :: job where
  "example_nurse = \<lparr>job_title = Text ''Nurse'', company_name = Text ''NHS'',
     description = Text ''Ward nurse'', apply_link = Missing,
     discovery_input = Some \<lparr>location = Text ''London''\<rparr>\<rparr>"

definition example_dev :: job where
  "example_dev = \<lparr>job_title = Text ''Developer'', company_name = IsNull,
     description = Missing, apply_link = Missing,
     discovery_input = Some \<lparr>location = Text ''All''\<rparr>\<rparr>"

subsection \<open>The filtering contract in the words of the specification\<close>

definition spec_keeps :: "string \<Rightarrow> string \<Rightarrow> job \<Rightarrow> bool" where
  \<comment> \<open>a selected location must equal the job's, ignoring case; a present query must
      occur, lowercased, in the lowercased title, company or location\<close>
  "spec_keeps q loc j =
     ((loc \<noteq> ''All'' \<longrightarrow> toLowerCase (or_empty (job_location j)) = toLowerCase loc) \<and>
      (q \<noteq> [] \<longrightarrow>
         sublist (toLowerCase q) (toLowerCase (or_empty (job_title j))) \<or>
         sublist (toLowerCase q) (toLowerCase (or_empty (company_name j))) \<or>
         sublist (toLowerCase q) (toLowerCase (or_empty (job_location j)))))"

definition spec_keeps_trimmed :: "string \<Rightarrow> string \<Rightarrow> job \<Rightarrow> bool" where
  \<comment> \<open>the same contract read on the query with its surrounding white space removed\<close>
  "spec_keeps_trimmed q loc j = spec_keeps (trim q) loc j"

section \<open>JavaScript values\<close>

text \<open>
  The values a parsed JSON body and its properties can hold. A number is kept as what the
  page can observe of it: whether it is truthy (neither zero nor \<open>NaN\<close>) and the text
  \<open>Number::toString\<close> prints for it. An object is the list of its own properties, each
  key once; none of them is callable, since JSON has no functions.
\<close>

datatype jsval = Undefined | Null | Bool bool | Num bool string | Str string
  | Arr "jsval list" | Obj "(string \<times> jsval) list"

datatype exn = TypeError | FetchRejected | HttpError | SyntaxError

fun truthy :: "jsval \<Rightarrow> bool" where
  "truthy Undefined = False"
| "truthy Null = False"
| "truthy (Bool b) = b"
| "truthy (Num nonzero txt) = nonzero"
| "truthy (Str s) = (s \<noteq> [])"
| "truthy (Arr vs) = True"
| "truthy (Obj kvs) = True"

fun ToString :: "jsval \<Rightarrow> exn + string"
  and join_elements :: "jsval list \<Rightarrow> exn + string" where
  \<comment> \<open>the conversion done by a template literal and by \<open>+\<close> with a string. An object
      with an own \<open>toString\<close> property (not callable) has no primitive value: \<open>TypeError\<close>;
      any other object prints through \<open>Object.prototype.toString\<close>. An array prints its
      elements joined by commas, \<open>null\<close> and \<open>undefined\<close> as nothing.\<close>
  "ToString Undefined = Inr ''undefined''"
| "ToString Null = Inr ''null''"
| "ToString (Bool b) = Inr (if b then ''true'' else ''false'')"
| "ToString (Num nonzero txt) = Inr txt"
| "ToString (Str s) = Inr s"
| "ToString (Arr vs) = join_elements vs"
| "ToString (Obj kvs) =
     (case map_of kvs ''toString'' of
        None \<Rightarrow> Inr ''[object Object]''
      | Some v \<Rightarrow> Inl TypeError)"
| "join_elements [] = Inr []"
| "join_elements (v # vs) =
     (case (if v = Undefined \<or> v = Null then Inr [] else ToString v) of
        Inl e \<Rightarrow> Inl e
      | Inr s \<Rightarrow>
          if vs = [] then Inr s
          else (case join_elements vs of Inl e \<Rightarrow> Inl e | Inr t \<Rightarrow> Inr (s @ '','' @ t)))"

fun get_prop :: "jsval \<Rightarrow> string \<Rightarrow> exn + jsval" where
  \<comment> \<open>\<open>v.k\<close> for a property name that no prototype defines: reading from
      \<open>undefined\<close> or \<open>null\<close> throws, a missing property reads as \<open>undefined\<close>\<close>
  "get_prop Undefined k = Inl TypeError"
| "get_prop Null k = Inl TypeError"
| "get_prop (Obj kvs) k = Inr (case map_of kvs k of None \<Rightarrow> Undefined | Some v \<Rightarrow> v)"
| "get_prop v k = Inr Undefined"

fun or_else :: "jsval \<Rightarrow> jsval \<Rightarrow> jsval" where
  \<comment> \<open>\<open>a || b\<close>\<close>
  "or_else a b = (if truthy a then a else b)"

fun js_field :: "text_field \<Rightarrow> jsval" where
  "js_field Missing = Undefined"
| "js_field IsNull = Null"
| "js_field (Text s) = Str s"

section \<open>The assist page\<close>

record nav_state =
  nav_job :: "job option"

definition job_of_state :: "nav_state option \<Rightarrow> job option" where
  \<comment> \<open>\<open>state?.job\<close>\<close>
  "job_of_state state = (case state of None \<Rightarrow> None | Some s \<Rightarrow> nav_job s)"

datatype page = JobsPage | ApplyWithAI

definition Routes :: "string \<Rightarrow> page option" where
  \<comment> \<open>the route table, read at the two paths the code itself navigates to; the router's
      looser matching of other spellings (letter case, trailing slashes) is left out\<close>
  "Routes path = (if path = ''/'' then Some JobsPage
                  else if path = ''/apply-with-ai'' then Some ApplyWithAI else None)"

definition redirect_effect :: "job option \<Rightarrow> string option" where
  \<comment> \<open>the effect run after the assist page mounts: \<open>if (!job) navigate("/")\<close>\<close>
  "redirect_effect job = (case job of None \<Rightarrow> Some ''/'' | Some j \<Rightarrow> None)"

definition enter_assist :: "nav_state option \<Rightarrow> string" where
  \<comment> \<open>the path shown once the assist route has mounted and its effect has run\<close>
  "enter_assist state =
     (case redirect_effect (job_of_state state) of
        None \<Rightarrow> ''/apply-with-ai'' | Some path \<Rightarrow> path)"

record assist_state =
  cv :: string
  letter :: jsval
  loading :: bool
  error :: string
  selectedStyle :: string
  rewrittenCv :: jsval
  editAction :: string
  cvReview :: jsval

definition initial_state :: assist_state where
  "initial_state = \<lparr>cv = [], letter = Str [], loading = False, error = [],
     selectedStyle = ''summary'', rewrittenCv = Str [], editAction = ''longer'',
     cvReview = Null\<rparr>"

datatype response = NetworkFailure | HttpResponse bool "jsval option"
  \<comment> \<open>\<open>fetch\<close> rejects, or resolves with \<open>res.ok\<close> and a body; the body is \<open>None\<close> when
      its text is not JSON\<close>

type_synonym network = "string \<Rightarrow> jsval \<Rightarrow> response"

datatype effect = SetLoading bool | SetError string | SetLetter jsval
  | SetRewrittenCv jsval | SetCvReview jsval | Fetch string jsval | ConsoleError exn

fun apply_effect :: "assist_state \<Rightarrow> effect \<Rightarrow> assist_state" where
  "apply_effect s (SetLoading b) = s\<lparr>loading := b\<rparr>"
| "apply_effect s (SetError m) = s\<lparr>error := m\<rparr>"
| "apply_effect s (SetLetter v) = s\<lparr>letter := v\<rparr>"
| "apply_effect s (SetRewrittenCv v) = s\<lparr>rewrittenCv := v\<rparr>"
| "apply_effect s (SetCvReview v) = s\<lparr>cvReview := v\<rparr>"
| "apply_effect s (Fetch url body) = s"
| "apply_effect s (ConsoleError e) = s"

definition run :: "effect list \<Rightarrow> assist_state \<Rightarrow> assist_state" where
  \<comment> \<open>the state after the effects of an action, in the order they were issued\<close>
  "run log s = foldl apply_effect s log"

fun fetches :: "effect list \<Rightarrow> string list" where
  \<comment> \<open>the URLs requested, in order\<close>
  "fetches [] = []"
| "fetches (Fetch url body # es) = url # fetches es"
| "fetches (e # es) = fetches es"

fun loading_at_fetches :: "bool \<Rightarrow> effect list \<Rightarrow> bool list" where
  \<comment> \<open>the loading flag at the moment each request is issued, from its value at the start\<close>
  "loading_at_fetches l [] = []"
| "loading_at_fetches l (SetLoading b # es) = loading_at_fetches b es"
| "loading_at_fetches l (Fetch url body # es) = l # loading_at_fetches l es"
| "loading_at_fetches l (e # es) = loading_at_fetches l es"

definition fetch_json :: "network \<Rightarrow> string \<Rightarrow> jsval \<Rightarrow> exn + jsval" where
  \<comment> \<open>\<open>await fetch(url, ...)\<close>, \<open>if (!res.ok) throw\<close>, then the body parsed as JSON\<close>
  "fetch_json net url body =
     (case net url body of
        NetworkFailure \<Rightarrow> Inl FetchRejected
      | HttpResponse ok parsed \<Rightarrow>
          if \<not> ok then Inl HttpError
          else (case parsed of None \<Rightarrow> Inl SyntaxError | Some data \<Rightarrow> Inr data))"

definition job_payload :: "job option \<Rightarrow> jsval \<Rightarrow> jsval" where
  \<comment> \<open>the \<open>job\<close> object of every request body, given its \<open>description\<close> entry, as
      handed to \<open>JSON.stringify\<close> (which leaves out the entries that are \<open>undefined\<close>)\<close>
  "job_payload job descr =
     Obj [(''job_title'', js_field (case job of None \<Rightarrow> Missing | Some j \<Rightarrow> job_title j)),
          (''company_name'',
             js_field (case job of None \<Rightarrow> Missing | Some j \<Rightarrow> company_name j)),
          (''description'', descr),
          (''discovery_input'',
             Obj [(''location'',
                   Str (or_empty (case job of None \<Rightarrow> Missing | Some j \<Rightarrow> job_location j)))])]"

definition job_description :: "job option \<Rightarrow> text_field" where
  \<comment> \<open>\<open>job?.description\<close>\<close>
  "job_description job = (case job of None \<Rightarrow> Missing | Some j \<Rightarrow> description j)"

definition validate_body :: "job option \<Rightarrow> assist_state \<Rightarrow> jsval" where
  "validate_body job s =
     Obj [(''cv_text'', Str (cv s)),
          (''job'', job_payload job (Str (or_empty (job_description job))))]"

definition cover_letter_body :: "job option \<Rightarrow> assist_state \<Rightarrow> jsval" where
  "cover_letter_body job s =
     Obj [(''cv_text'', Str (cv s)),
          (''job'', job_payload job (js_field (job_description job))),
          (''style'', Str (selectedStyle s))]"

definition rewrite_body :: "job option \<Rightarrow> assist_state \<Rightarrow> jsval" where
  "rewrite_body job s =
     Obj [(''cv_text'', Str (cv s)),
          (''job'', job_payload job (js_field (job_description job)))]"

definition edit_body :: "job option \<Rightarrow> assist_state \<Rightarrow> jsval" where
  "edit_body job s =
     Obj [(''action'', Str (editAction s)),
          (''letter'', letter s),
          (''cv_text'', Str (cv s)),
          (''job'', job_payload job (Str (or_empty (job_description job))))]"

text \<open>
  An action reads the values of the render it was created in (\<open>s\<close>) and issues effects.
  Its \<open>try\<close> block is a function returning the effects issued and either the exception
  thrown or the value reached; the action adds the \<open>catch\<close> and \<open>finally\<close> blocks.
\<close>

definition validateCv_try :: "job option \<Rightarrow> assist_state \<Rightarrow> network \<Rightarrow> effect list \<times> (exn + jsval)" where
  "validateCv_try job s net =
     (let body = validate_body job s
      in case fetch_json net ''/api/validate-cv'' body of
           Inl e \<Rightarrow> ([Fetch ''/api/validate-cv'' body], Inl e)
         | Inr data \<Rightarrow> ([Fetch ''/api/validate-cv'' body, SetCvReview data], Inr data))"

definition validateCv :: "job option \<Rightarrow> assist_state \<Rightarrow> network \<Rightarrow> effect list \<times> (exn + jsval)" where
  "validateCv job s net =
     (case validateCv_try job s net of
        (log, Inl e) \<Rightarrow> (log @ [ConsoleError e, SetError ''CV validation failed.''], Inr Null)
      | (log, Inr data) \<Rightarrow> (log, Inr data))"

definition incomplete_message :: "jsval \<Rightarrow> jsval \<Rightarrow> exn + string" where
  \<comment> \<open>the template literal, then \<open>+\<close> with \<open>advice || "Please add more detail."\<close>; either
      conversion may throw\<close>
  "incomplete_message score advice =
     (case ToString score of
        Inl e \<Rightarrow> Inl e
      | Inr st \<Rightarrow>
          (case ToString (or_else advice (Str ''Please add more detail.'')) of
             Inl e \<Rightarrow> Inl e
           | Inr at \<Rightarrow>
               Inr (''Your CV seems incomplete for this JD (score '' @ st @ ''). '' @ at)))"

definition generateLetter_try :: "job option \<Rightarrow> assist_state \<Rightarrow> network \<Rightarrow> effect list \<times> (exn + unit)" where
  "generateLetter_try job s net =
     (let start = [SetLoading True, SetError [], SetLetter (Str [])]
      in case validateCv job s net of
           (vlog, Inl e) \<Rightarrow> (start @ vlog, Inl e)
         | (vlog, Inr review) \<Rightarrow>
             if \<not> truthy review then (start @ vlog, Inr ())
             else (case get_prop review ''enough'' of
                     Inl e \<Rightarrow> (start @ vlog, Inl e)
                   | Inr enough \<Rightarrow>
                       if enough = Bool False then
                         (case (get_prop review ''score'', get_prop review ''advice'') of
                            (Inr score, Inr advice) \<Rightarrow>
                              (case incomplete_message score advice of
                                 Inl e \<Rightarrow> (start @ vlog, Inl e)
                               | Inr msg \<Rightarrow> (start @ vlog @ [SetError msg], Inr ()))
                          | (Inl e, _) \<Rightarrow> (start @ vlog, Inl e)
                          | (_, Inl e) \<Rightarrow> (start @ vlog, Inl e))
                       else
                         (let body = cover_letter_body job s;
                              req = start @ vlog @ [Fetch ''/api/cover-letter'' body]
                          in case fetch_json net ''/api/cover-letter'' body of
                               Inl e \<Rightarrow> (req, Inl e)
                             | Inr data \<Rightarrow>
                                 (case get_prop data ''letter'' of
                                    Inl e \<Rightarrow> (req, Inl e)
                                  | Inr l \<Rightarrow> (req @ [SetLetter l], Inr ())))))"

definition generateLetter :: "job option \<Rightarrow> assist_state \<Rightarrow> network \<Rightarrow> effect list \<times> (exn + unit)" where
  "generateLetter job s net =
     (case generateLetter_try job s net of
        (log, Inl e) \<Rightarrow>
          (log @ [ConsoleError e, SetError ''Failed to generate letter.''] @ [SetLoading False],
           Inr ())
      | (log, Inr u) \<Rightarrow> (log @ [SetLoading False], Inr ()))"

definition rewriteAsCv_try :: "job option \<Rightarrow> assist_state \<Rightarrow> network \<Rightarrow> effect list \<times> (exn + unit)" where
  "rewriteAsCv_try job s net =
     (let body = rewrite_body job s;
          req = [SetLoading True, SetError [], SetRewrittenCv (Str []),
                 Fetch ''/api/rewrite-to-cv'' body]
      in case fetch_json net ''/api/rewrite-to-cv'' body of
           Inl e \<Rightarrow> (req, Inl e)
         | Inr data \<Rightarrow>
             (case get_prop data ''cv'' of
                Inl e \<Rightarrow> (req, Inl e)
              | Inr c \<Rightarrow> (req @ [SetRewrittenCv c], Inr ())))"

definition rewriteAsCv :: "job option \<Rightarrow> assist_state \<Rightarrow> network \<Rightarrow> effect list \<times> (exn + unit)" where
  "rewriteAsCv job s net =
     (case rewriteAsCv_try job s net of
        (log, Inl e) \<Rightarrow>
          (log @ [ConsoleError e, SetError ''Failed to rewrite CV.''] @ [SetLoading False],
           Inr ())
      | (log, Inr u) \<Rightarrow> (log @ [SetLoading False], Inr ()))"

definition modifyLetter_try :: "job option \<Rightarrow> assist_state \<Rightarrow> network \<Rightarrow> effect list \<times> (exn + unit)" where
  "modifyLetter_try job s net =
     (let body = edit_body job s;
          req = [SetLoading True, SetError [], Fetch ''/api/edit-letter'' body]
      in case fetch_json net ''/api/edit-letter'' body of
           Inl e \<Rightarrow> (req, Inl e)
         | Inr data \<Rightarrow>
             (case get_prop data ''letter'' of
                Inl e \<Rightarrow> (req, Inl e)
              | Inr l \<Rightarrow> (req @ [SetLetter l], Inr ())))"

definition modifyLetter :: "job option \<Rightarrow> assist_state \<Rightarrow> network \<Rightarrow> effect list \<times> (exn + unit)" where
  "modifyLetter job s net =
     (case modifyLetter_try job s net of
        (log, Inl e) \<Rightarrow>
          (log @ [ConsoleError e, SetError ''Failed to modify letter.''] @ [SetLoading False],
           Inr ())
      | (log, Inr u) \<Rightarrow> (log @ [SetLoading False], Inr ()))"

definition failed :: "response \<Rightarrow> bool" where
  \<comment> \<open>a network failure or a non-success HTTP status\<close>
  "failed r = (case r of NetworkFailure \<Rightarrow> True | HttpResponse ok parsed \<Rightarrow> \<not> ok)"

subsection \<open>Example servers and states\<close>

definition net_down :: network where
  "net_down url body = NetworkFailure"



definition net_ok :: network where
  "net_ok url body =
     (if url = ''/api/validate-cv''
      then HttpResponse True (Some (Obj [(''score'', Num True ''80''), (''enough'', Bool True),
                                         (''advice'', Str [])]))
      else if url = ''/api/rewrite-to-cv''
      then HttpResponse True (Some (Obj [(''cv'', Str ''Profile'')]))
      else HttpResponse True (Some (Obj [(''letter'', Str ''Dear team'')])))"

definition net_letter_down :: network where
  "net_letter_down url body =
     (if url = ''/api/validate-cv'' then net_ok url body else HttpResponse False None)"

definition state_with_letter :: assist_state where
  "state_with_letter = initial_state\<lparr>cv := ''Nurse, 5 years'', letter := Str ''Old letter''\<rparr>"

definition passes_validation :: "job option \<Rightarrow> assist_state \<Rightarrow> network \<Rightarrow> bool" where
  \<comment> \<open>the validation request succeeds with a truthy review whose \<open>enough\<close> is not \<open>false\<close>\<close>
  "passes_validation job s net =
     (case fetch_json net ''/api/validate-cv'' (validate_body job s) of
        Inl e \<Rightarrow> False
      | Inr review \<Rightarrow> truthy review \<and> get_prop review ''enough'' \<noteq> Inr (Bool False))"

section \<open>Properties of the listing page\<close>

lemma startsWith_prefix: "startsWith s q = prefix q s"
  by (induction s q rule: startsWith.induct) auto

lemma includes_str_sublist: "includes_str s q = sublist q s"
  by (induction s) (auto simp: startsWith_prefix sublist_Cons_right)

lemma set_sort_insert: "set (sort_insert cmp x ys) = insert x (set ys)"
  by (induction ys) auto

lemma distinct_sort_insert: "distinct (sort_insert cmp x ys) = (x \<notin> set ys \<and> distinct ys)"
  by (induction ys) (auto simp: set_sort_insert)

lemma sorted_sort_insert:
  assumes "consistent_comparator cmp" "sorted_wrt (\<lambda>a b. cmp a b \<le> 0) ys"
  shows "sorted_wrt (\<lambda>a b. cmp a b \<le> 0) (sort_insert cmp x ys)"
  using assms(2)
proof (induction ys)
  case Nil
  then show ?case by simp
next
  case (Cons y ys)
  have flip: "\<And>a b. \<not> cmp a b < 0 \<Longrightarrow> cmp b a \<le> 0"
    using assms(1) unfolding consistent_comparator_def by (metis not_less)
  have trans: "\<And>a b c. cmp a b \<le> 0 \<Longrightarrow> cmp b c \<le> 0 \<Longrightarrow> cmp a c \<le> 0"
    using assms(1) unfolding consistent_comparator_def by blast
  show ?case
  proof (cases "cmp x y < 0")
    case True
    then have "cmp x y \<le> 0" by simp
    with Cons.prems trans have "\<forall>z\<in>set ys. cmp x z \<le> 0" by auto
    with True Cons.prems show ?thesis by auto
  next
    case False
    with Cons flip show ?thesis by (auto simp: set_sort_insert)
  qed
qed

lemma set_foldl_sort: "set (foldl (\<lambda>acc x. sort_insert cmp x acc) acc xs) = set acc \<union> set xs"
  by (induction xs arbitrary: acc) (auto simp: set_sort_insert)

lemma distinct_foldl_sort:
  "distinct (foldl (\<lambda>acc x. sort_insert cmp x acc) acc xs) =
     (distinct acc \<and> distinct xs \<and> set acc \<inter> set xs = {})"
  by (induction xs arbitrary: acc) (auto simp: set_sort_insert distinct_sort_insert)

lemma sorted_foldl_sort:
  "consistent_comparator cmp \<Longrightarrow> sorted_wrt (\<lambda>a b. cmp a b \<le> 0) acc \<Longrightarrow>
   sorted_wrt (\<lambda>a b. cmp a b \<le> 0) (foldl (\<lambda>acc x. sort_insert cmp x acc) acc xs)"
  by (induction xs arbitrary: acc) (auto simp: sorted_sort_insert)

lemma set_foldl_Set_add: "set (foldl Set_add acc xs) = set acc \<union> set xs"
  by (induction xs arbitrary: acc) (auto simp: Set_add_def)

lemma distinct_foldl_Set_add: "distinct acc \<Longrightarrow> distinct (foldl Set_add acc xs)"
  by (induction xs arbitrary: acc) (auto simp: Set_add_def)

lemma set_filter_Boolean: "set (filter_Boolean vs) = {s. Text s \<in> set vs \<and> s \<noteq> []}"
  by (induction vs rule: filter_Boolean.induct) auto

lemma toLowerCase_Nil_iff: "toLowerCase s = [] \<longleftrightarrow> s = []"
  by (simp add: toLowerCase_def)

lemma matchJob_spec: "matchJob (toLowerCase q) loc j = spec_keeps q loc j"
  unfolding matchJob_def spec_keeps_def Let_def includes_str_sublist toLowerCase_Nil_iff
  by blast

text \<open>C5: with an empty query and the \<open>All\<close> location the filter returns the job array
  itself, every element in its place.\<close>

theorem filteredJobs_empty_All: "filteredJobs jobs [] ''All'' = jobs"
  by (simp add: filteredJobs_def trim_def toLowerCase_def matchJob_def)

text \<open>C1 (as amended): the filter returns, in input order, exactly the jobs whose location
  equals the selected one ignoring case (when the selection is not \<open>All\<close>) and whose
  lowercased title, company or location contains the lowercased query, where the query is
  first stripped of leading and trailing white space and counts as present only if
  something is left.\<close>

theorem filteredJobs_subset:
  "filteredJobs jobs q loc = filter (spec_keeps_trimmed q loc) jobs"
  unfolding filteredJobs_def spec_keeps_trimmed_def Let_def
  by (rule filter_cong) (simp_all add: matchJob_spec)

text \<open>An instance of the amended C1: the query \<open>nurse\<close> typed with a trailing space and the
  location \<open>london\<close> keep the London nurse and drop the developer.\<close>

theorem filteredJobs_subset_witness:
  "filteredJobs [example_nurse, example_dev] ''nurse '' ''london'' = [example_nurse] \<and>
   spec_keeps_trimmed ''nurse '' ''london'' example_nurse \<and>
   \<not> spec_keeps_trimmed ''nurse '' ''london'' example_dev"
proof -
  have e: "filteredJobs [example_nurse, example_dev] ''nurse '' ''london'' = [example_nurse]"
    by code_simp
  have n: "example_nurse \<noteq> example_dev" by code_simp
  from filteredJobs_subset [of "[example_nurse, example_dev]" "''nurse ''" "''london''"] e n
  show ?thesis by (simp split: if_splits)
qed

text \<open>C1 as written fails: the query \<open>nurse\<close> followed by a space is not a substring of any field
  of the nurse job, yet the filter keeps that job, because it trims the query.\<close>

theorem filteredJobs_untrimmed_counterexample:
  "filteredJobs [example_nurse] ''nurse '' ''All'' = [example_nurse] \<and>
   filter (spec_keeps ''nurse '' ''All'') [example_nurse] = []"
proof -
  have "filteredJobs [example_nurse] ''nurse '' ''All'' = [example_nurse]" by code_simp
  moreover have "\<not> spec_keeps ''nurse '' ''All'' example_nurse"
    unfolding spec_keeps_def includes_str_sublist [symmetric] by code_simp
  ultimately show ?thesis by simp
qed

text \<open>C6: filtering by the query alone and then by the location alone gives the same list as
  the other order, and both give the list of the combined filter.\<close>

theorem filter_query_location_commute:
  "filteredJobs (filteredJobs jobs q ''All'') [] loc =
     filteredJobs (filteredJobs jobs [] loc) q ''All'' \<and>
   filteredJobs (filteredJobs jobs q ''All'') [] loc = filteredJobs jobs q loc"
proof -
  let ?Q = "toLowerCase (trim q)"
  have split: "matchJob ?Q loc = (\<lambda>j. matchJob ?Q ''All'' j \<and> matchJob [] loc j)"
    by (rule ext) (simp add: matchJob_def Let_def)
  have e: "toLowerCase (trim []) = []"
    by (simp add: trim_def toLowerCase_def)
  have l: "filteredJobs (filteredJobs jobs q ''All'') [] loc =
           filter (\<lambda>j. matchJob ?Q ''All'' j \<and> matchJob [] loc j) jobs"
    by (simp add: filteredJobs_def e conj_commute)
  have r: "filteredJobs (filteredJobs jobs [] loc) q ''All'' =
           filter (\<lambda>j. matchJob [] loc j \<and> matchJob ?Q ''All'' j) jobs"
    by (simp add: filteredJobs_def e)
  have sw: "(\<lambda>j. matchJob [] loc j \<and> matchJob ?Q ''All'' j) =
            (\<lambda>j. matchJob ?Q ''All'' j \<and> matchJob [] loc j)"
    by (rule ext) (rule conj_commute)
  have m: "filteredJobs jobs q loc =
           filter (\<lambda>j. matchJob ?Q ''All'' j \<and> matchJob [] loc j) jobs"
    unfolding filteredJobs_def Let_def by (subst split) (rule refl)
  show ?thesis unfolding l r m sw by simp
qed

lemma compare_units_flip: "(compare_units a b < 0) = (0 < compare_units b a)"
  by (induction a b rule: compare_units.induct) auto

lemma compare_units_trans:
  "compare_units a b \<le> 0 \<Longrightarrow> compare_units b c \<le> 0 \<Longrightarrow> compare_units a c \<le> 0"
proof (induction a b arbitrary: c rule: compare_units.induct)
  case 1
  then show ?case by simp
next
  case (2 y ys)
  then show ?case by (cases c) simp_all
next
  case (3 x xs)
  then show ?case by simp
next
  case (4 x xs y ys)
  show ?case
  proof (cases c)
    case Nil
    with "4.prems" show ?thesis by simp
  next
    case (Cons z zs)
    let ?x = "of_char x :: nat" and ?y = "of_char y :: nat" and ?z = "of_char z :: nat"
    have xy: "?x < ?y \<or> (\<not> ?x < ?y \<and> \<not> ?y < ?x \<and> compare_units xs ys \<le> 0)"
      using "4.prems"(1) by (cases "?x < ?y"; cases "?y < ?x") simp_all
    have yz: "?y < ?z \<or> (\<not> ?y < ?z \<and> \<not> ?z < ?y \<and> compare_units ys zs \<le> 0)"
      using "4.prems"(2) unfolding Cons by (cases "?y < ?z"; cases "?z < ?y") simp_all
    consider (lt) "?x < ?z"
      | (eq) "\<not> ?x < ?y" "\<not> ?y < ?x" "\<not> ?x < ?z" "\<not> ?z < ?x"
             "compare_units xs ys \<le> 0" "compare_units ys zs \<le> 0"
      using xy yz by linarith
    then show ?thesis
    proof cases
      case lt
      then show ?thesis unfolding Cons by simp
    next
      case eq
      from "4.IH" [OF eq(1) eq(2) eq(5) eq(6)] have "compare_units xs zs \<le> 0" .
      with eq(3) eq(4) show ?thesis unfolding Cons by simp
    qed
  qed
qed

lemma consistent_compare_units: "consistent_comparator compare_units"
proof -
  have "\<forall>a b. (compare_units a b < 0) = (0 < compare_units b a)"
    by (intro allI) (rule compare_units_flip)
  moreover have "\<forall>a b c. compare_units a b \<le> 0 \<and> compare_units b c \<le> 0
                    \<longrightarrow> compare_units a c \<le> 0"
    by (intro allI impI, erule conjE) (rule compare_units_trans)
  ultimately show ?thesis
    unfolding consistent_comparator_def by (rule conjI)
qed

text \<open>C4 (as amended): for a consistent comparator, the selector list is the \<open>All\<close> sentinel
  followed by the present, non-empty location values of the jobs, each once, in the
  comparator's order; the list as a whole is free of duplicates exactly when no job is
  located at the string \<open>All\<close>.\<close>

theorem locations_sentinel_sorted_distinct:
  assumes "consistent_comparator localeCompare"
  shows "\<exists>rest. locations localeCompare jobs = ''All'' # rest \<and> distinct rest \<and>
           sorted_wrt (\<lambda>a b. localeCompare a b \<le> 0) rest \<and>
           set rest = {s. s \<noteq> [] \<and> (\<exists>j \<in> set jobs. job_location j = Text s)} \<and>
           (distinct (locations localeCompare jobs) \<longleftrightarrow>
              (\<forall>j \<in> set jobs. job_location j \<noteq> Text ''All''))"
proof -
  let ?s = "new_Set (filter_Boolean (map job_location jobs))"
  let ?rest = "Array_sort localeCompare ?s"
  have eq: "locations localeCompare jobs = ''All'' # ?rest"
    by (simp add: locations_def)
  have d: "distinct ?rest"
    by (simp add: Array_sort_def distinct_foldl_sort new_Set_def distinct_foldl_Set_add)
  have s: "sorted_wrt (\<lambda>a b. localeCompare a b \<le> 0) ?rest"
    unfolding Array_sort_def by (rule sorted_foldl_sort [OF assms]) simp
  have m: "set ?rest = {s. s \<noteq> [] \<and> (\<exists>j \<in> set jobs. job_location j = Text s)}"
    by (force simp: Array_sort_def set_foldl_sort new_Set_def set_foldl_Set_add
          set_filter_Boolean)
  have "distinct (locations localeCompare jobs) \<longleftrightarrow>
              (\<forall>j \<in> set jobs. job_location j \<noteq> Text ''All'')"
    unfolding eq using d m by auto
  with eq d s m show ?thesis by blast
qed

text \<open>An instance of the amended C4 under code-unit comparison.\<close>

theorem locations_sentinel_sorted_distinct_witness:
  "consistent_comparator compare_units \<and>
   locations compare_units [example_nurse, example_dev, example_nurse]
     = [''All'', ''All'', ''London''] \<and>
   \<not> distinct (locations compare_units [example_nurse, example_dev, example_nurse])"
proof -
  have e: "locations compare_units [example_nurse, example_dev, example_nurse]
             = [''All'', ''All'', ''London'']"
    by code_simp
  have a: "job_location example_dev = Text ''All''"
    by code_simp
  from locations_sentinel_sorted_distinct [OF consistent_compare_units,
      of "[example_nurse, example_dev, example_nurse]"] a
  have "\<not> distinct (locations compare_units [example_nurse, example_dev, example_nurse])"
    by auto
  with e consistent_compare_units show ?thesis by simp
qed

text \<open>C4 as written fails: a job whose location is the string \<open>All\<close> makes the selector list
  hold \<open>All\<close> twice.\<close>

theorem locations_duplicate_counterexample:
  "\<not> distinct (locations compare_units [example_dev])"
  by code_simp

section \<open>Properties of the assist page\<close>

lemma run_Nil [simp]: "run [] s = s" by (simp add: run_def)
lemma run_Cons [simp]: "run (e # es) s = run es (apply_effect s e)" by (simp add: run_def)
lemma run_append [simp]: "run (a @ b) s = run b (run a s)" by (simp add: run_def)

lemma fetches_append [simp]: "fetches (a @ b) = fetches a @ fetches b"
  by (induction a rule: fetches.induct) simp_all

lemma validateCv_cases:
  "validateCv job s net =
     (case fetch_json net ''/api/validate-cv'' (validate_body job s) of
        Inl e \<Rightarrow> ([Fetch ''/api/validate-cv'' (validate_body job s), ConsoleError e,
                   SetError ''CV validation failed.''], Inr Null)
      | Inr data \<Rightarrow> ([Fetch ''/api/validate-cv'' (validate_body job s), SetCvReview data],
                     Inr data))"
  by (simp add: validateCv_def validateCv_try_def Let_def split: sum.splits)

lemma fetch_json_failed: "failed (net url body) \<Longrightarrow> \<exists>e. fetch_json net url body = Inl e"
  by (auto simp: failed_def fetch_json_def split: response.splits)

lemma fetch_json_ok:
  "net url body = HttpResponse True (Some data) \<Longrightarrow> fetch_json net url body = Inr data"
  by (simp add: fetch_json_def)

lemma get_prop_truthy: "truthy v \<Longrightarrow> \<exists>w. get_prop v k = Inr w"
  by (cases v) simp_all

lemma get_prop_Inr_Bool: "get_prop v k = Inr (Bool b) \<Longrightarrow> truthy v \<and> (\<exists>w. get_prop v k' = Inr w)"
  by (cases v) simp_all

lemma generateLetter_validation_failed:
  assumes "fetch_json net ''/api/validate-cv'' (validate_body job s) = Inl e"
  shows "generateLetter job s net =
           ([SetLoading True, SetError [], SetLetter (Str []),
             Fetch ''/api/validate-cv'' (validate_body job s), ConsoleError e,
             SetError ''CV validation failed.'', SetLoading False], Inr ())"
  by (simp add: generateLetter_def generateLetter_try_def validateCv_cases assms)

lemma generateLetter_insufficient_log:
  assumes "fetch_json net ''/api/validate-cv'' (validate_body job s) = Inr review"
    and "get_prop review ''enough'' = Inr (Bool False)"
    and "get_prop review ''score'' = Inr score" and "get_prop review ''advice'' = Inr advice"
    and "incomplete_message score advice = Inr msg"
  shows "generateLetter job s net =
           ([SetLoading True, SetError [], SetLetter (Str []),
             Fetch ''/api/validate-cv'' (validate_body job s), SetCvReview review,
             SetError msg, SetLoading False], Inr ())"
  using assms get_prop_Inr_Bool [OF assms(2)]
  by (simp add: generateLetter_def generateLetter_try_def validateCv_cases)

lemma generateLetter_insufficient_throw:
  assumes "fetch_json net ''/api/validate-cv'' (validate_body job s) = Inr review"
    and "get_prop review ''enough'' = Inr (Bool False)"
    and "get_prop review ''score'' = Inr score" and "get_prop review ''advice'' = Inr advice"
    and "incomplete_message score advice = Inl e"
  shows "generateLetter job s net =
           ([SetLoading True, SetError [], SetLetter (Str []),
             Fetch ''/api/validate-cv'' (validate_body job s), SetCvReview review,
             ConsoleError e, SetError ''Failed to generate letter.'', SetLoading False],
            Inr ())"
  using assms get_prop_Inr_Bool [OF assms(2)]
  by (simp add: generateLetter_def generateLetter_try_def validateCv_cases)

lemma incomplete_message_Inr:
  "incomplete_message score advice = Inr msg \<longleftrightarrow>
     (\<exists>st at. ToString score = Inr st \<and>
        ToString (or_else advice (Str ''Please add more detail.'')) = Inr at \<and>
        msg = ''Your CV seems incomplete for this JD (score '' @ st @ ''). '' @ at)"
  by (auto simp: incomplete_message_def split: sum.splits)


lemma generateLetter_generation_error:
  assumes "fetch_json net ''/api/validate-cv'' (validate_body job s) = Inr review"
    and "truthy review" and "get_prop review ''enough'' \<noteq> Inr (Bool False)"
    and "fetch_json net ''/api/cover-letter'' (cover_letter_body job s) = Inl e"
  shows "generateLetter job s net =
           ([SetLoading True, SetError [], SetLetter (Str []),
             Fetch ''/api/validate-cv'' (validate_body job s), SetCvReview review,
             Fetch ''/api/cover-letter'' (cover_letter_body job s), ConsoleError e,
             SetError ''Failed to generate letter.'', SetLoading False], Inr ())"
  using assms get_prop_truthy [OF assms(2), of "''enough''"]
  by (auto simp: generateLetter_def generateLetter_try_def validateCv_cases Let_def)

lemma generateLetter_generated:
  assumes "fetch_json net ''/api/validate-cv'' (validate_body job s) = Inr review"
    and "truthy review" and "get_prop review ''enough'' \<noteq> Inr (Bool False)"
    and "fetch_json net ''/api/cover-letter'' (cover_letter_body job s) = Inr data"
    and "get_prop data ''letter'' = Inr l"
  shows "generateLetter job s net =
           ([SetLoading True, SetError [], SetLetter (Str []),
             Fetch ''/api/validate-cv'' (validate_body job s), SetCvReview review,
             Fetch ''/api/cover-letter'' (cover_letter_body job s), SetLetter l,
             SetLoading False], Inr ())"
  using assms get_prop_truthy [OF assms(2), of "''enough''"]
  by (auto simp: generateLetter_def generateLetter_try_def validateCv_cases Let_def)

text \<open>C7: when validation answers with a review that is not insufficient and the generation
  request succeeds with a body whose \<open>letter\<close> is the string \<open>X\<close>, the letter state after
  the flow is \<open>X\<close>.\<close>

theorem generateLetter_success_letter:
  assumes "net ''/api/validate-cv'' (validate_body job s) = HttpResponse True (Some review)"
    and "truthy review" and "get_prop review ''enough'' \<noteq> Inr (Bool False)"
    and "net ''/api/cover-letter'' (cover_letter_body job s) = HttpResponse True (Some data)"
    and "get_prop data ''letter'' = Inr (Str X)"
  shows "letter (run (fst (generateLetter job s net)) s) = Str X"
proof -
  have v: "fetch_json net ''/api/validate-cv'' (validate_body job s) = Inr review"
    using assms(1) by (simp add: fetch_json_def)
  have g: "fetch_json net ''/api/cover-letter'' (cover_letter_body job s) = Inr data"
    using assms(4) by (simp add: fetch_json_def)
  show ?thesis
    by (simp add: generateLetter_generated [OF v assms(2) assms(3) g assms(5)])
qed

text \<open>An instance of C7 on the example server that accepts every request.\<close>

theorem generateLetter_success_letter_witness:
  "letter (run (fst (generateLetter (Some example_nurse) initial_state net_ok)) initial_state)
     = Str ''Dear team''"
  by (rule generateLetter_success_letter [of net_ok "Some example_nurse" initial_state
         "Obj [(''score'', Num True ''80''), (''enough'', Bool True), (''advice'', Str [])]"
         "Obj [(''letter'', Str ''Dear team'')]"])
     (simp_all add: net_ok_def)




lemma rewriteAsCv_failed_log:
  assumes "fetch_json net ''/api/rewrite-to-cv'' (rewrite_body job s) = Inl e"
  shows "rewriteAsCv job s net =
           ([SetLoading True, SetError [], SetRewrittenCv (Str []),
             Fetch ''/api/rewrite-to-cv'' (rewrite_body job s), ConsoleError e,
             SetError ''Failed to rewrite CV.'', SetLoading False], Inr ())"
  by (simp add: rewriteAsCv_def rewriteAsCv_try_def assms)

lemma modifyLetter_failed_log:
  assumes "fetch_json net ''/api/edit-letter'' (edit_body job s) = Inl e"
  shows "modifyLetter job s net =
           ([SetLoading True, SetError [], Fetch ''/api/edit-letter'' (edit_body job s),
             ConsoleError e, SetError ''Failed to modify letter.'', SetLoading False], Inr ())"
  by (simp add: modifyLetter_def modifyLetter_try_def assms)

lemma validateCv_failed_log:
  assumes "fetch_json net ''/api/validate-cv'' (validate_body job s) = Inl e"
  shows "validateCv job s net =
           ([Fetch ''/api/validate-cv'' (validate_body job s), ConsoleError e,
             SetError ''CV validation failed.''], Inr Null)"
  by (simp add: validateCv_cases assms)

lemma passes_validationD:
  assumes "passes_validation job s net"
  obtains review where "fetch_json net ''/api/validate-cv'' (validate_body job s) = Inr review"
    and "truthy review" and "get_prop review ''enough'' \<noteq> Inr (Bool False)"
  using assms unfolding passes_validation_def by (auto split: sum.splits)

lemma snd_generateLetter: "snd (generateLetter job s net) = Inr ()"
  by (simp add: generateLetter_def split: prod.splits sum.splits)

lemma snd_rewriteAsCv: "snd (rewriteAsCv job s net) = Inr ()"
  by (simp add: rewriteAsCv_def split: prod.splits sum.splits)

lemma snd_modifyLetter: "snd (modifyLetter job s net) = Inr ()"
  by (simp add: modifyLetter_def split: prod.splits sum.splits)

lemma snd_validateCv: "\<exists>v. snd (validateCv job s net) = Inr v"
  by (simp add: validateCv_cases split: sum.splits)

text \<open>C3: no action lets an exception escape, and a network failure or a non-success HTTP
  status of a request leaves the fixed message of the action that sent it in the error
  state, the request having been sent once: the validation request (alone or inside the
  generate-letter flow), the generation request once validation has passed, the rewrite
  request and the edit request.\<close>

theorem failures_caught_fixed_message:
  "snd (generateLetter job s net) = Inr () \<and> snd (rewriteAsCv job s net) = Inr () \<and>
   snd (modifyLetter job s net) = Inr () \<and> (\<exists>v. snd (validateCv job s net) = Inr v) \<and>
   (failed (net ''/api/validate-cv'' (validate_body job s)) \<longrightarrow>
      error (run (fst (validateCv job s net)) s) = ''CV validation failed.'' \<and>
      fetches (fst (validateCv job s net)) = [''/api/validate-cv''] \<and>
      error (run (fst (generateLetter job s net)) s) = ''CV validation failed.'' \<and>
      fetches (fst (generateLetter job s net)) = [''/api/validate-cv'']) \<and>
   (passes_validation job s net \<and> failed (net ''/api/cover-letter'' (cover_letter_body job s)) \<longrightarrow>
      error (run (fst (generateLetter job s net)) s) = ''Failed to generate letter.'' \<and>
      fetches (fst (generateLetter job s net)) = [''/api/validate-cv'', ''/api/cover-letter'']) \<and>
   (failed (net ''/api/rewrite-to-cv'' (rewrite_body job s)) \<longrightarrow>
      error (run (fst (rewriteAsCv job s net)) s) = ''Failed to rewrite CV.'' \<and>
      fetches (fst (rewriteAsCv job s net)) = [''/api/rewrite-to-cv'']) \<and>
   (failed (net ''/api/edit-letter'' (edit_body job s)) \<longrightarrow>
      error (run (fst (modifyLetter job s net)) s) = ''Failed to modify letter.'' \<and>
      fetches (fst (modifyLetter job s net)) = [''/api/edit-letter''])"
proof -
  have v: "error (run (fst (validateCv job s net)) s) = ''CV validation failed.'' \<and>
      fetches (fst (validateCv job s net)) = [''/api/validate-cv''] \<and>
      error (run (fst (generateLetter job s net)) s) = ''CV validation failed.'' \<and>
      fetches (fst (generateLetter job s net)) = [''/api/validate-cv'']"
    if "failed (net ''/api/validate-cv'' (validate_body job s))"
  proof -
    from fetch_json_failed [of net, OF that] obtain e
      where e: "fetch_json net ''/api/validate-cv'' (validate_body job s) = Inl e" ..
    show ?thesis
      by (simp add: validateCv_failed_log [OF e] generateLetter_validation_failed [OF e])
  qed
  have g: "error (run (fst (generateLetter job s net)) s) = ''Failed to generate letter.'' \<and>
      fetches (fst (generateLetter job s net)) = [''/api/validate-cv'', ''/api/cover-letter'']"
    if p: "passes_validation job s net"
      and f: "failed (net ''/api/cover-letter'' (cover_letter_body job s))"
  proof -
    from p obtain review
      where r: "fetch_json net ''/api/validate-cv'' (validate_body job s) = Inr review"
        "truthy review" "get_prop review ''enough'' \<noteq> Inr (Bool False)"
      by (rule passes_validationD)
    from fetch_json_failed [of net, OF f] obtain e
      where e: "fetch_json net ''/api/cover-letter'' (cover_letter_body job s) = Inl e" ..
    show ?thesis
      by (simp add: generateLetter_generation_error [OF r e])
  qed
  have w: "error (run (fst (rewriteAsCv job s net)) s) = ''Failed to rewrite CV.'' \<and>
      fetches (fst (rewriteAsCv job s net)) = [''/api/rewrite-to-cv'']"
    if "failed (net ''/api/rewrite-to-cv'' (rewrite_body job s))"
  proof -
    from fetch_json_failed [of net, OF that] obtain e
      where e: "fetch_json net ''/api/rewrite-to-cv'' (rewrite_body job s) = Inl e" ..
    show ?thesis by (simp add: rewriteAsCv_failed_log [OF e])
  qed
  have m: "error (run (fst (modifyLetter job s net)) s) = ''Failed to modify letter.'' \<and>
      fetches (fst (modifyLetter job s net)) = [''/api/edit-letter'']"
    if "failed (net ''/api/edit-letter'' (edit_body job s))"
  proof -
    from fetch_json_failed [of net, OF that] obtain e
      where e: "fetch_json net ''/api/edit-letter'' (edit_body job s) = Inl e" ..
    show ?thesis by (simp add: modifyLetter_failed_log [OF e])
  qed
  show ?thesis
    using snd_generateLetter snd_rewriteAsCv snd_modifyLetter snd_validateCv v g w m
    by blast
qed

text \<open>An instance of C3: a server that is down, and one that validates but refuses to
  generate.\<close>

theorem failures_caught_fixed_message_witness:
  "failed (net_down ''/api/validate-cv'' (validate_body (Some example_nurse) initial_state)) \<and>
   error (run (fst (generateLetter (Some example_nurse) initial_state net_down)) initial_state)
     = ''CV validation failed.'' \<and>
   failed (net_down ''/api/rewrite-to-cv'' (rewrite_body (Some example_nurse) initial_state)) \<and>
   error (run (fst (rewriteAsCv (Some example_nurse) initial_state net_down)) initial_state)
     = ''Failed to rewrite CV.'' \<and>
   failed (net_down ''/api/edit-letter'' (edit_body (Some example_nurse) initial_state)) \<and>
   error (run (fst (modifyLetter (Some example_nurse) initial_state net_down)) initial_state)
     = ''Failed to modify letter.'' \<and>
   passes_validation (Some example_nurse) initial_state net_letter_down \<and>
   failed (net_letter_down ''/api/cover-letter''
             (cover_letter_body (Some example_nurse) initial_state)) \<and>
   error (run (fst (generateLetter (Some example_nurse) initial_state net_letter_down))
            initial_state) = ''Failed to generate letter.''"
proof -
  have d: "failed (net_down url body)" for url body
    by (simp add: failed_def net_down_def)
  have p: "passes_validation (Some example_nurse) initial_state net_letter_down"
    by (simp add: passes_validation_def fetch_json_def net_letter_down_def net_ok_def)
  have f: "failed (net_letter_down ''/api/cover-letter''
             (cover_letter_body (Some example_nurse) initial_state))"
    by (simp add: failed_def net_letter_down_def)
  from failures_caught_fixed_message [of "Some example_nurse" initial_state net_down]
    failures_caught_fixed_message [of "Some example_nurse" initial_state net_letter_down]
    d p f
  show ?thesis by blast
qed

text \<open>C8: entering the assist page with no job in the navigation state ends on the listing
  page at the home route; whenever the assist page is still the one shown, the navigation
  state holds a job.\<close>

theorem redirect_without_job:
  "(job_of_state state = None \<longrightarrow>
      enter_assist state = ''/'' \<and> Routes (enter_assist state) = Some JobsPage) \<and>
   (Routes (enter_assist state) = Some ApplyWithAI \<longrightarrow> (\<exists>j. job_of_state state = Some j))"
  by (cases "job_of_state state") (simp_all add: enter_assist_def redirect_effect_def Routes_def)

text \<open>Instances of C8: a direct hit with no navigation state, a state with no job, and a
  state carrying a job.\<close>

theorem redirect_without_job_witness:
  "job_of_state None = None \<and> Routes (enter_assist None) = Some JobsPage \<and>
   job_of_state (Some \<lparr>nav_job = None\<rparr>) = None \<and>
   Routes (enter_assist (Some \<lparr>nav_job = None\<rparr>)) = Some JobsPage \<and>
   Routes (enter_assist (Some \<lparr>nav_job = Some example_nurse\<rparr>)) = Some ApplyWithAI \<and>
   job_of_state (Some \<lparr>nav_job = Some example_nurse\<rparr>) = Some example_nurse"
  using redirect_without_job [of None] redirect_without_job [of "Some \<lparr>nav_job = None\<rparr>"]
    redirect_without_job [of "Some \<lparr>nav_job = Some example_nurse\<rparr>"]
  by (simp add: job_of_state_def enter_assist_def redirect_effect_def Routes_def)

lemma generateLetter_not_proceeding:
  assumes "fetch_json net ''/api/validate-cv'' (validate_body job s) = Inr review"
    and "\<not> truthy review"
  shows "generateLetter job s net =
           ([SetLoading True, SetError [], SetLetter (Str []),
             Fetch ''/api/validate-cv'' (validate_body job s), SetCvReview review,
             SetLoading False], Inr ())"
  using assms by (simp add: generateLetter_def generateLetter_try_def validateCv_cases)

lemma generateLetter_bad_body:
  assumes "fetch_json net ''/api/validate-cv'' (validate_body job s) = Inr review"
    and "truthy review" and "get_prop review ''enough'' \<noteq> Inr (Bool False)"
    and "fetch_json net ''/api/cover-letter'' (cover_letter_body job s) = Inr data"
    and "get_prop data ''letter'' = Inl e"
  shows "generateLetter job s net =
           ([SetLoading True, SetError [], SetLetter (Str []),
             Fetch ''/api/validate-cv'' (validate_body job s), SetCvReview review,
             Fetch ''/api/cover-letter'' (cover_letter_body job s), ConsoleError e,
             SetError ''Failed to generate letter.'', SetLoading False], Inr ())"
  using assms get_prop_truthy [OF assms(2), of "''enough''"]
  by (auto simp: generateLetter_def generateLetter_try_def validateCv_cases Let_def)

lemma generateLetter_shape:
  "\<exists>rest. fst (generateLetter job s net) =
      [SetLoading True, SetError [], SetLetter (Str []),
       Fetch ''/api/validate-cv'' (validate_body job s)] @ rest @ [SetLoading False] \<and>
     (fetches rest = [] \<or> fetches rest = [''/api/cover-letter'']) \<and>
     (\<forall>b. SetLoading b \<notin> set rest)"
proof (cases "fetch_json net ''/api/validate-cv'' (validate_body job s)")
  case (Inl e)
  show ?thesis by (simp add: generateLetter_validation_failed [OF Inl])
next
  case (Inr review)
  show ?thesis
  proof (cases "truthy review")
    case False
    show ?thesis by (simp add: generateLetter_not_proceeding [OF Inr False])
  next
    case True
    show ?thesis
    proof (cases "get_prop review ''enough'' = Inr (Bool False)")
      case en: True
      from get_prop_Inr_Bool [OF en] obtain score advice
        where sa: "get_prop review ''score'' = Inr score"
          "get_prop review ''advice'' = Inr advice"
        by blast
      show ?thesis
      proof (cases "incomplete_message score advice")
        case e: (Inl e)
        show ?thesis by (simp add: generateLetter_insufficient_throw [OF Inr en sa e])
      next
        case m: (Inr msg)
        show ?thesis by (simp add: generateLetter_insufficient_log [OF Inr en sa m])
      qed
    next
      case en: False
      show ?thesis
      proof (cases "fetch_json net ''/api/cover-letter'' (cover_letter_body job s)")
        case e: (Inl e)
        show ?thesis by (simp add: generateLetter_generation_error [OF Inr True en e])
      next
        case d: (Inr data)
        show ?thesis
        proof (cases "get_prop data ''letter''")
          case (Inl e)
          show ?thesis by (simp add: generateLetter_bad_body [OF Inr True en d Inl])
        next
          case l: (Inr l)
          show ?thesis by (simp add: generateLetter_generated [OF Inr True en d l])
        qed
      qed
    qed
  qed
qed

lemma rewriteAsCv_shape:
  "\<exists>rest. fst (rewriteAsCv job s net) =
      [SetLoading True, SetError [], SetRewrittenCv (Str []),
       Fetch ''/api/rewrite-to-cv'' (rewrite_body job s)] @ rest @ [SetLoading False] \<and>
     fetches rest = [] \<and> (\<forall>b. SetLoading b \<notin> set rest)"
  by (auto simp: rewriteAsCv_def rewriteAsCv_try_def Let_def split: sum.splits)

lemma modifyLetter_shape:
  "\<exists>rest. fst (modifyLetter job s net) =
      [SetLoading True, SetError [], Fetch ''/api/edit-letter'' (edit_body job s)]
      @ rest @ [SetLoading False] \<and>
     fetches rest = [] \<and> (\<forall>b. SetLoading b \<notin> set rest)"
  by (auto simp: modifyLetter_def modifyLetter_try_def Let_def split: sum.splits)

lemma loading_at_fetches_quiet:
  "\<forall>b. SetLoading b \<notin> set es \<Longrightarrow>
   loading_at_fetches l (es @ fs) = replicate (length (fetches es)) l @ loading_at_fetches l fs"
proof (induction es)
  case Nil
  then show ?case by simp
next
  case (Cons e es)
  then show ?case by (cases e) auto
qed

lemma loading_run_end: "loading (run (es @ [SetLoading b]) s) = b"
  by simp

text \<open>C9 (as amended): generate letter, rewrite and edit letter each send their requests
  while the loading flag is true (the validation request of the generate-letter flow
  included) and leave the flag false at the end, whatever the server answers; the validate
  function does not write the flag, so its request sees the flag as it was and leaves it
  so.\<close>

theorem loading_covers_requests:
  "loading_at_fetches l0 (fst (generateLetter job s net)) =
     replicate (length (fetches (fst (generateLetter job s net)))) True \<and>
   fetches (fst (generateLetter job s net)) \<noteq> [] \<and>
   loading (run (fst (generateLetter job s net)) s) = False \<and>
   loading_at_fetches l0 (fst (rewriteAsCv job s net)) = [True] \<and>
   fetches (fst (rewriteAsCv job s net)) = [''/api/rewrite-to-cv''] \<and>
   loading (run (fst (rewriteAsCv job s net)) s) = False \<and>
   loading_at_fetches l0 (fst (modifyLetter job s net)) = [True] \<and>
   fetches (fst (modifyLetter job s net)) = [''/api/edit-letter''] \<and>
   loading (run (fst (modifyLetter job s net)) s) = False \<and>
   loading_at_fetches l0 (fst (validateCv job s net)) = [l0] \<and>
   loading (run (fst (validateCv job s net)) s) = loading s"
proof -
  obtain g where g: "fst (generateLetter job s net) =
      [SetLoading True, SetError [], SetLetter (Str []),
       Fetch ''/api/validate-cv'' (validate_body job s)] @ g @ [SetLoading False]"
    "\<forall>b. SetLoading b \<notin> set g"
    using generateLetter_shape by blast
  obtain r where r: "fst (rewriteAsCv job s net) =
      [SetLoading True, SetError [], SetRewrittenCv (Str []),
       Fetch ''/api/rewrite-to-cv'' (rewrite_body job s)] @ r @ [SetLoading False]"
    "fetches r = []" "\<forall>b. SetLoading b \<notin> set r"
    using rewriteAsCv_shape by blast
  obtain m where m: "fst (modifyLetter job s net) =
      [SetLoading True, SetError [], Fetch ''/api/edit-letter'' (edit_body job s)]
      @ m @ [SetLoading False]"
    "fetches m = []" "\<forall>b. SetLoading b \<notin> set m"
    using modifyLetter_shape by blast
  have G: "loading_at_fetches l0 (fst (generateLetter job s net)) =
     replicate (length (fetches (fst (generateLetter job s net)))) True \<and>
   fetches (fst (generateLetter job s net)) \<noteq> [] \<and>
   loading (run (fst (generateLetter job s net)) s) = False"
    unfolding g(1) by (simp add: loading_at_fetches_quiet [OF g(2)])
  have R: "loading_at_fetches l0 (fst (rewriteAsCv job s net)) = [True] \<and>
   fetches (fst (rewriteAsCv job s net)) = [''/api/rewrite-to-cv''] \<and>
   loading (run (fst (rewriteAsCv job s net)) s) = False"
    unfolding r(1) by (simp add: loading_at_fetches_quiet [OF r(3)] r(2))
  have M: "loading_at_fetches l0 (fst (modifyLetter job s net)) = [True] \<and>
   fetches (fst (modifyLetter job s net)) = [''/api/edit-letter''] \<and>
   loading (run (fst (modifyLetter job s net)) s) = False"
    unfolding m(1) by (simp add: loading_at_fetches_quiet [OF m(3)] m(2))
  have V: "loading_at_fetches l0 (fst (validateCv job s net)) = [l0] \<and>
   loading (run (fst (validateCv job s net)) s) = loading s"
    by (simp add: validateCv_cases split: sum.splits)
  from G R M V show ?thesis by blast
qed

text \<open>An instance of the amended C9: both requests of a successful generate-letter flow are
  sent with the flag true.\<close>

theorem loading_covers_requests_witness:
  "loading_at_fetches False (fst (generateLetter (Some example_nurse) state_with_letter net_ok))
     = [True, True] \<and>
   loading (run (fst (generateLetter (Some example_nurse) state_with_letter net_ok))
              state_with_letter) = False"
proof -
  have "fetches (fst (generateLetter (Some example_nurse) state_with_letter net_ok))
      = [''/api/validate-cv'', ''/api/cover-letter'']"
    by code_simp
  with loading_covers_requests [of False "Some example_nurse" state_with_letter net_ok]
  show ?thesis by simp
qed

text \<open>C9 as written fails for validate: called with the flag false, it sends its request
  with the flag false.\<close>

theorem validateCv_loading_counterexample:
  "loading initial_state = False \<and>
   loading_at_fetches (loading initial_state)
     (fst (validateCv (Some example_nurse) initial_state net_ok)) = [False] \<and>
   loading (run (fst (validateCv (Some example_nurse) initial_state net_ok)) initial_state)
     = False"
  by (simp add: validateCv_cases fetch_json_def net_ok_def initial_state_def)



end
